theory Spec2Isabelle
  imports Main "HOL-Library.Word"
begin

section \<open>The faceted movie browser of \<^verbatim>\<open>src/App.jsx\<close>\<close>

text \<open>
  The development embeds the \<^verbatim>\<open>App\<close> component and the handlers of its \<^verbatim>\<open>Dropdown\<close>
  children. The React state of \<^verbatim>\<open>App\<close> is one record; every \<^verbatim>\<open>fetch\<close> that has been
  issued and not yet answered is an entry of the list \<open>inflight\<close>, which keeps the
  variables its \<^verbatim>\<open>.then\<close> callback closed over. An event handler is run against the
  state of the render it was created in, its state updates are applied as one batch,
  and the effects whose dependencies changed are run against the new state.
\<close>

subsection \<open>JavaScript strings and numbers\<close>

text \<open>
  A JavaScript string is a sequence of UTF-16 code units and \<^verbatim>\<open>length\<close> counts them.
  Program literals (parameter keys, endpoint names) are ASCII and stay HOL strings.
\<close>

type_synonym jstring = "16 word list"

definition lit :: "string \<Rightarrow> jstring" where
  "lit cs = map of_char cs"

text \<open>\<^verbatim>\<open>String(n)\<close> for an integral number: decimal digits, with a minus sign.\<close>

fun digits :: "nat \<Rightarrow> jstring" where
  "digits n = (if n < 10 then [of_nat (48 + n)] else digits (n div 10) @ [of_nat (48 + n mod 10)])"

definition String_of :: "int \<Rightarrow> jstring" where
  "String_of n = (if n < 0 then 45 # digits (nat (- n)) else digits (nat n))"

text \<open>\<^verbatim>\<open>String.prototype.trim\<close>: the white space and line terminators of ECMAScript.\<close>

definition isWhiteSpace :: "16 word \<Rightarrow> bool" where
  "isWhiteSpace c = (c \<in> set [0x9, 0xA, 0xB, 0xC, 0xD, 0x20, 0xA0, 0x1680,
     0x2000, 0x2001, 0x2002, 0x2003, 0x2004, 0x2005, 0x2006, 0x2007, 0x2008, 0x2009, 0x200A,
     0x2028, 0x2029, 0x202F, 0x205F, 0x3000, 0xFEFF])"

definition trim :: "jstring \<Rightarrow> jstring" where
  "trim s = rev (dropWhile isWhiteSpace (rev (dropWhile isWhiteSpace s)))"

text \<open>\<^verbatim>\<open>String.prototype.includes\<close>: the pattern occurs as a contiguous substring.\<close>

fun js_includes :: "'a list \<Rightarrow> 'a list \<Rightarrow> bool" where
  "js_includes [] pat = (pat = [])"
| "js_includes (c # cs) pat = (take (length pat) (c # cs) = pat \<or> js_includes cs pat)"

text \<open>
  Truthiness, as \<^verbatim>\<open>if (selectedGenre)\<close> and \<^verbatim>\<open>!!data.next\<close> test it: \<^verbatim>\<open>null\<close>, the
  number \<^verbatim>\<open>0\<close> and the empty string are falsy.
\<close>

fun truthy_id :: "int option \<Rightarrow> bool" where
  "truthy_id None = False"
| "truthy_id (Some i) = (i \<noteq> 0)"

fun truthy_str :: "jstring option \<Rightarrow> bool" where
  "truthy_str None = False"
| "truthy_str (Some u) = (u \<noteq> [])"

text \<open>The string a selection is appended as: \<^verbatim>\<open>String(null)\<close> is \<^verbatim>\<open>"null"\<close>.\<close>

fun String_sel :: "int option \<Rightarrow> jstring" where
  "String_sel None = lit ''null''"
| "String_sel (Some i) = String_of i"

subsection \<open>Data\<close>

datatype facet = Genre | Country | Year | Actor | Director

text \<open>An option of a dropdown, \<^verbatim>\<open>{ id, name }\<close>; ids are the numbers of the catalog.\<close>

record opt =
  opt_id :: int
  opt_name :: jstring

text \<open>The rows of the facet endpoints, as far as the code reads them.\<close>

record api_row =
  row_id :: int
  row_name :: jstring

record api_person =
  person_id :: int
  name_ru :: jstring

text \<open>The setters that \<^verbatim>\<open>fetchData\<close> and \<^verbatim>\<open>fetchPersons\<close> receive as arguments.\<close>

datatype list_setter = SetGenres | SetCountries | SetActors | SetDirectors
datatype page_setter = SetActorPage | SetDirectorPage
datatype more_setter = SetHasMoreActors | SetHasMoreDirectors

text \<open>
  A request: its address below \<^verbatim>\<open>API\<close>, and the variables of the enclosing call that
  the \<^verbatim>\<open>.then\<close> callback uses. \<^verbatim>\<open>fetchData\<close> and \<^verbatim>\<open>fetchMovies\<close> address a path
  with query parameters (a literal endpoint with a number, and \<^verbatim>\<open>URLSearchParams\<close>);
  \<^verbatim>\<open>fetchPersons\<close> builds its address as one string, with the search term pasted in as
  it is.
\<close>

type_synonym url = "string \<times> (string \<times> jstring) list"

datatype request =
    DataReq url string list_setter int bool
  | PersonReq jstring list_setter int bool page_setter more_setter
  | MovieReq url int bool

text \<open>
  What the network answers. A fetch that cannot complete rejects its promise; a
  completed one delivers \<^verbatim>\<open>{ results, next }\<close>. A movie is opaque to the component.
  An answer with an error status, whose body has another shape, is outside the model.
\<close>

datatype 'm response =
    NetworkFailure
  | Rows "api_row list" "jstring option"
  | People "api_person list" "jstring option"
  | Films "'m list" "jstring option"

text \<open>
  The \<^verbatim>\<open>useState\<close> cells of \<^verbatim>\<open>App\<close>, the \<^verbatim>\<open>open\<close> cell of each \<^verbatim>\<open>Dropdown\<close> (the set of
  facets whose dropdown is open), and the requests in flight.
\<close>

record 'm app_state =
  movies :: "'m list"
  search :: jstring
  genres :: "opt list"
  countries :: "opt list"
  actors :: "opt list"
  directors :: "opt list"
  selectedGenre :: "int option"
  selectedCountry :: "int option"
  selectedYear :: "int option"
  selectedActor :: "int option"
  selectedDirector :: "int option"
  actorSearch :: jstring
  directorSearch :: jstring
  page :: int
  hasMore :: bool
  genrePage :: int
  countryPage :: int
  actorPage :: int
  directorPage :: int
  hasMoreGenres :: bool
  hasMoreCountries :: bool
  hasMoreActors :: bool
  hasMoreDirectors :: bool
  opened :: "facet set"
  inflight :: "request list"

definition init :: "'m app_state" where
  "init = \<lparr> movies = [], search = [], genres = [], countries = [], actors = [], directors = [],
     selectedGenre = None, selectedCountry = None, selectedYear = None,
     selectedActor = None, selectedDirector = None,
     actorSearch = [], directorSearch = [],
     page = 1, hasMore = False,
     genrePage = 1, countryPage = 1, actorPage = 1, directorPage = 1,
     hasMoreGenres = True, hasMoreCountries = True, hasMoreActors = True, hasMoreDirectors = True,
     opened = {}, inflight = [] \<rparr>"

definition years :: "opt list" where
  "years = rev (map (\<lambda>i. \<lparr> opt_id = 1990 + int i, opt_name = String_of (1990 + int i) \<rparr>)
     [0 ..< 2025 - 1990 + 1])"

subsection \<open>The fetch functions\<close>

definition mapFn :: "api_row \<Rightarrow> opt" where
  "mapFn i = \<lparr> opt_id = row_id i, opt_name = row_name i \<rparr>"

definition mapPerson :: "api_person \<Rightarrow> opt" where
  "mapPerson p = \<lparr> opt_id = person_id p, opt_name = name_ru p \<rparr>"

fun set_list :: "list_setter \<Rightarrow> (opt list \<Rightarrow> opt list) \<Rightarrow> 'm app_state \<Rightarrow> 'm app_state" where
  "set_list SetGenres f s = s\<lparr>genres := f (genres s)\<rparr>"
| "set_list SetCountries f s = s\<lparr>countries := f (countries s)\<rparr>"
| "set_list SetActors f s = s\<lparr>actors := f (actors s)\<rparr>"
| "set_list SetDirectors f s = s\<lparr>directors := f (directors s)\<rparr>"

fun set_page :: "page_setter \<Rightarrow> int \<Rightarrow> 'm app_state \<Rightarrow> 'm app_state" where
  "set_page SetActorPage n s = s\<lparr>actorPage := n\<rparr>"
| "set_page SetDirectorPage n s = s\<lparr>directorPage := n\<rparr>"

fun set_more :: "more_setter \<Rightarrow> bool \<Rightarrow> 'm app_state \<Rightarrow> 'm app_state" where
  "set_more SetHasMoreActors b s = s\<lparr>hasMoreActors := b\<rparr>"
| "set_more SetHasMoreDirectors b s = s\<lparr>hasMoreDirectors := b\<rparr>"

text \<open>\<^verbatim>\<open>fetchData\<close>: the request it issues, and its \<^verbatim>\<open>.then\<close> callback.\<close>

definition fetchData :: "string \<Rightarrow> list_setter \<Rightarrow> int \<Rightarrow> bool \<Rightarrow> request list" where
  "fetchData endpoint setter pg appending =
     [DataReq (endpoint, [(''page'', String_of pg)]) endpoint setter pg appending]"

definition fetchData_then ::
  "string \<Rightarrow> list_setter \<Rightarrow> int \<Rightarrow> bool \<Rightarrow> api_row list \<Rightarrow> jstring option \<Rightarrow> 'm app_state \<Rightarrow> 'm app_state" where
  "fetchData_then endpoint setter pg appending results nxt s =
     (let s1 = set_list setter (\<lambda>prev. if appending then prev @ map mapFn results else map mapFn results) s
      in if js_includes endpoint ''genre'' then s1\<lparr>hasMoreGenres := truthy_str nxt, genrePage := pg\<rparr>
         else if js_includes endpoint ''country'' then s1\<lparr>hasMoreCountries := truthy_str nxt, countryPage := pg\<rparr>
         else s1)"

text \<open>
  \<^verbatim>\<open>fetchPersons\<close>: nothing is issued for a search of fewer than three code units.
  Otherwise the address is the template string \<^verbatim>\<open>person/?search=${search}\<close>, extended by
  \<^verbatim>\<open>&page=${page}\<close> beyond the first page; nothing encodes the term.
\<close>

definition fetchPersons ::
  "string \<Rightarrow> jstring \<Rightarrow> int \<Rightarrow> bool \<Rightarrow> list_setter \<Rightarrow> page_setter \<Rightarrow> more_setter \<Rightarrow> request list" where
  "fetchPersons kind srch pg appending setter setPageState setMoreState =
     (if length srch < 3 then []
      else [PersonReq (lit ''person/?search='' @ srch @ (if pg > 1 then lit ''&page='' @ String_of pg else []))
              setter pg appending setPageState setMoreState])"

definition fetchPersons_then ::
  "list_setter \<Rightarrow> int \<Rightarrow> bool \<Rightarrow> page_setter \<Rightarrow> more_setter \<Rightarrow> api_person list \<Rightarrow> jstring option
     \<Rightarrow> 'm app_state \<Rightarrow> 'm app_state" where
  "fetchPersons_then setter pg appending setPageState setMoreState results nxt s =
     set_page setPageState pg (set_more setMoreState (truthy_str nxt)
       (set_list setter (\<lambda>prev. if appending then prev @ map mapPerson results else map mapPerson results) s))"

text \<open>
  \<^verbatim>\<open>fetchMovies\<close>: the parameters are built from the selections of the render whose
  closure the call runs in, here the state \<open>s\<close>.
\<close>

definition params :: "'m app_state \<Rightarrow> int \<Rightarrow> (string \<times> jstring) list" where
  "params s p =
     (if trim (search s) \<noteq> [] then [(''search'', trim (search s))] else []) @
     (if truthy_id (selectedGenre s) then [(''genres'', String_sel (selectedGenre s))] else []) @
     (if truthy_id (selectedCountry s) then [(''countries'', String_sel (selectedCountry s))] else []) @
     (if truthy_id (selectedYear s) then [(''release_year'', String_sel (selectedYear s))] else []) @
     (if truthy_id (selectedActor s) then [(''cast'', String_sel (selectedActor s))] else []) @
     (if truthy_id (selectedDirector s) then [(''directors'', String_sel (selectedDirector s))] else []) @
     [(''page'', String_of p)]"

definition fetchMovies :: "'m app_state \<Rightarrow> int \<Rightarrow> bool \<Rightarrow> request list" where
  "fetchMovies s p appending = [MovieReq (''movie/'', params s p) p appending]"

definition fetchMovies_then :: "int \<Rightarrow> bool \<Rightarrow> 'm list \<Rightarrow> jstring option \<Rightarrow> 'm app_state \<Rightarrow> 'm app_state" where
  "fetchMovies_then p appending results nxt s =
     s\<lparr>movies := (if appending then movies s @ results else results),
       hasMore := truthy_str nxt, page := p\<rparr>"

subsection \<open>Effects and batched updates\<close>

text \<open>
  The three effects with dependencies, in the order of their declaration, run after a
  render in which a dependency differs from the previous render.
\<close>

definition query_deps ::
  "'m app_state \<Rightarrow> jstring \<times> int option \<times> int option \<times> int option \<times> int option \<times> int option" where
  "query_deps s = (search s, selectedGenre s, selectedCountry s, selectedYear s,
     selectedActor s, selectedDirector s)"

definition effects :: "'m app_state \<Rightarrow> 'm app_state \<Rightarrow> request list" where
  "effects old new =
     (if actorSearch new \<noteq> actorSearch old
      then fetchPersons ''actor'' (actorSearch new) 1 False SetActors SetActorPage SetHasMoreActors else []) @
     (if directorSearch new \<noteq> directorSearch old
      then fetchPersons ''director'' (directorSearch new) 1 False SetDirectors SetDirectorPage SetHasMoreDirectors
      else []) @
     (if query_deps new \<noteq> query_deps old then fetchMovies new 1 False else [])"

text \<open>
  A handler of the render of \<open>s\<close>: \<open>upd\<close> is the batch of its state updates, \<open>reqs\<close> the
  requests it issues itself (from the closure of \<open>s\<close>), before the effects of the next
  render.
\<close>

definition dispatch :: "('m app_state \<Rightarrow> 'm app_state) \<Rightarrow> request list \<Rightarrow> 'm app_state \<Rightarrow> 'm app_state" where
  "dispatch upd reqs s = (let s' = upd s in s'\<lparr>inflight := inflight s @ reqs @ effects s s'\<rparr>)"

text \<open>Mounting runs every effect once, against the initial render.\<close>

definition mount :: "'m app_state \<Rightarrow> 'm app_state" where
  "mount s = s\<lparr>inflight := inflight s @
     fetchData ''genre'' SetGenres 1 False @
     fetchData ''country'' SetCountries 1 False @
     fetchPersons ''actor'' (actorSearch s) 1 False SetActors SetActorPage SetHasMoreActors @
     fetchPersons ''director'' (directorSearch s) 1 False SetDirectors SetDirectorPage SetHasMoreDirectors @
     fetchMovies s 1 False\<rparr>"

subsection \<open>The dropdowns\<close>

text \<open>
  The props of a \<^verbatim>\<open>Dropdown\<close>, with the defaults of its parameter list. A state setter
  is the update it queues; \<^verbatim>\<open>loadMore\<close> is the list of requests the closure issues when
  it is called.
\<close>

record 'm props =
  options :: "opt list"
  selected :: "int option"
  onSelect :: "int \<Rightarrow> 'm app_state \<Rightarrow> 'm app_state"
  isLazy :: bool
  onSearch :: "(jstring \<Rightarrow> 'm app_state \<Rightarrow> 'm app_state) option"
  searchTerm :: jstring
  hasMore_prop :: bool
  loadMore :: "request list option"

text \<open>The five instances in the markup of \<^verbatim>\<open>App\<close>, rendered from the state \<open>s\<close>.\<close>

fun dropdown :: "facet \<Rightarrow> 'm app_state \<Rightarrow> 'm props" where
  "dropdown Genre s = \<lparr> options = genres s, selected = selectedGenre s,
     onSelect = (\<lambda>v t. t\<lparr>selectedGenre := Some v\<rparr>), isLazy = False, onSearch = None,
     searchTerm = [], hasMore_prop = hasMoreGenres s,
     loadMore = Some (fetchData ''genre'' SetGenres (genrePage s + 1) True) \<rparr>"
| "dropdown Country s = \<lparr> options = countries s, selected = selectedCountry s,
     onSelect = (\<lambda>v t. t\<lparr>selectedCountry := Some v\<rparr>), isLazy = False, onSearch = None,
     searchTerm = [], hasMore_prop = hasMoreCountries s,
     loadMore = Some (fetchData ''country'' SetCountries (countryPage s + 1) True) \<rparr>"
| "dropdown Year s = \<lparr> options = years, selected = selectedYear s,
     onSelect = (\<lambda>v t. t\<lparr>selectedYear := Some v\<rparr>), isLazy = False, onSearch = None,
     searchTerm = [], hasMore_prop = False, loadMore = None \<rparr>"
| "dropdown Actor s = \<lparr> options = actors s, selected = selectedActor s,
     onSelect = (\<lambda>v t. t\<lparr>selectedActor := Some v\<rparr>), isLazy = True,
     onSearch = Some (\<lambda>v t. t\<lparr>actorSearch := v\<rparr>),
     searchTerm = actorSearch s, hasMore_prop = hasMoreActors s,
     loadMore = Some (fetchPersons ''actor'' (actorSearch s) (actorPage s + 1) True
       SetActors SetActorPage SetHasMoreActors) \<rparr>"
| "dropdown Director s = \<lparr> options = directors s, selected = selectedDirector s,
     onSelect = (\<lambda>v t. t\<lparr>selectedDirector := Some v\<rparr>), isLazy = True,
     onSearch = Some (\<lambda>v t. t\<lparr>directorSearch := v\<rparr>),
     searchTerm = directorSearch s, hasMore_prop = hasMoreDirectors s,
     loadMore = Some (fetchPersons ''director'' (directorSearch s) (directorPage s + 1) True
       SetDirectors SetDirectorPage SetHasMoreDirectors) \<rparr>"

definition setOpen :: "facet \<Rightarrow> bool \<Rightarrow> 'm app_state \<Rightarrow> 'm app_state" where
  "setOpen f b s = s\<lparr>opened := (if b then insert f (opened s) else opened s - {f})\<rparr>"

text \<open>The optional call \<^verbatim>\<open>onSearch?.(v)\<close>.\<close>

definition call_onSearch :: "'m props \<Rightarrow> jstring \<Rightarrow> 'm app_state \<Rightarrow> 'm app_state" where
  "call_onSearch P v s = (case onSearch P of None \<Rightarrow> s | Some g \<Rightarrow> g v s)"

text \<open>
  The handlers of the dropdown of facet \<open>f\<close>. \<open>inside\<close> says whether the target of the
  mouse event lies within the dropdown's element.
\<close>

definition closeOnOutsideClick :: "facet \<Rightarrow> 'm props \<Rightarrow> bool \<Rightarrow> 'm app_state \<Rightarrow> 'm app_state" where
  "closeOnOutsideClick f P inside s =
     (if inside then s else call_onSearch P [] (setOpen f False s))"

definition buttonClick :: "facet \<Rightarrow> 'm app_state \<Rightarrow> 'm app_state" where
  "buttonClick f s = setOpen f (f \<notin> opened s) s"

definition inputChange :: "'m props \<Rightarrow> jstring \<Rightarrow> 'm app_state \<Rightarrow> 'm app_state" where
  "inputChange P v s = call_onSearch P v s"

definition ulScroll :: "'m props \<Rightarrow> int \<Rightarrow> int \<Rightarrow> int \<Rightarrow> request list" where
  "ulScroll P scrollTop scrollHeight clientHeight =
     (if scrollHeight - scrollTop \<le> clientHeight + 5 \<and> hasMore_prop P
      then (case loadMore P of None \<Rightarrow> [] | Some reqs \<Rightarrow> reqs) else [])"

definition liClick :: "facet \<Rightarrow> 'm props \<Rightarrow> opt \<Rightarrow> 'm app_state \<Rightarrow> 'm app_state" where
  "liClick f P x s = call_onSearch P [] (setOpen f False (onSelect P (opt_id x) s))"

subsection \<open>The handlers of \<^verbatim>\<open>App\<close>\<close>

text \<open>
  \<^verbatim>\<open>reset\<close> queues its eight updates and then calls \<^verbatim>\<open>fetchMovies(1)\<close> itself, in the
  closure of the render it was created in.
\<close>

definition reset :: "'m app_state \<Rightarrow> 'm app_state" where
  "reset s = dispatch
     (\<lambda>t. t\<lparr>search := [], selectedGenre := None, selectedCountry := None, selectedYear := None,
          selectedActor := None, selectedDirector := None, actorSearch := [], directorSearch := []\<rparr>)
     (fetchMovies s 1 False) s"

subsection \<open>Completion of a request\<close>

text \<open>
  The \<^verbatim>\<open>.then\<close> chain of request \<open>r\<close> on an answer. A rejected promise skips both
  callbacks, and no call of \<^verbatim>\<open>fetch\<close> has a rejection handler. An answer of another
  endpoint's shape is not an answer to \<open>r\<close>.
\<close>

fun deliver :: "request \<Rightarrow> 'm response \<Rightarrow> 'm app_state \<Rightarrow> 'm app_state option" where
  "deliver r NetworkFailure s = Some s"
| "deliver (DataReq u endpoint setter pg appending) (Rows results nxt) s =
     Some (fetchData_then endpoint setter pg appending results nxt s)"
| "deliver (PersonReq u setter pg appending setPageState setMoreState) (People results nxt) s =
     Some (fetchPersons_then setter pg appending setPageState setMoreState results nxt s)"
| "deliver (MovieReq u p appending) (Films results nxt) s =
     Some (fetchMovies_then p appending results nxt s)"
| "deliver _ _ s = None"

text \<open>
  The request at position \<open>i\<close> of the in-flight list completes with \<open>resp\<close>; it leaves
  the list and its callbacks update the state as it is at that moment. None of the
  cells a callback writes is a dependency of an effect.
\<close>

definition settle :: "nat \<Rightarrow> 'm response \<Rightarrow> 'm app_state \<Rightarrow> 'm app_state" where
  "settle i resp s =
     (if i < length (inflight s)
      then (case deliver (inflight s ! i) resp
                   (s\<lparr>inflight := take i (inflight s) @ drop (Suc i) (inflight s)\<rparr>) of
              None \<Rightarrow> s | Some s' \<Rightarrow> s')
      else s)"

subsection \<open>Events\<close>

text \<open>
  What the user and the network can do. An element that is not rendered receives no
  event: the search input exists in an open lazy dropdown, the list and its items in an
  open dropdown, the load-more button while \<open>hasMore\<close> holds. The items rendered are
  those of \<open>options\<close> that pass the name filter; the model admits a click on any option
  of the list, and the examples below click options whose name contains the search term.
  Pixel positions are integers.
\<close>

datatype 'm event =
    TitleInput jstring
  | Toggle facet
  | SearchInput facet jstring
  | Scroll facet int int int
  | OptionClick facet opt
  | MouseDown "facet option"
  | ResetClick
  | LoadMoreClick
  | Settle nat "'m response"

definition mouseDown :: "facet option \<Rightarrow> 'm app_state \<Rightarrow> 'm app_state" where
  "mouseDown target s =
     closeOnOutsideClick Director (dropdown Director s) (target = Some Director)
      (closeOnOutsideClick Actor (dropdown Actor s) (target = Some Actor)
        (closeOnOutsideClick Year (dropdown Year s) (target = Some Year)
          (closeOnOutsideClick Country (dropdown Country s) (target = Some Country)
            (closeOnOutsideClick Genre (dropdown Genre s) (target = Some Genre) s))))"

fun step :: "'m event \<Rightarrow> 'm app_state \<Rightarrow> 'm app_state" where
  "step (TitleInput v) s = dispatch (\<lambda>t. t\<lparr>search := v\<rparr>) [] s"
| "step (Toggle f) s = dispatch (buttonClick f) [] s"
| "step (SearchInput f v) s =
     (if f \<in> opened s \<and> isLazy (dropdown f s) then dispatch (inputChange (dropdown f s) v) [] s else s)"
| "step (Scroll f scrollTop scrollHeight clientHeight) s =
     (if f \<in> opened s
      then dispatch (\<lambda>t. t) (ulScroll (dropdown f s) scrollTop scrollHeight clientHeight) s else s)"
| "step (OptionClick f x) s =
     (if f \<in> opened s \<and> x \<in> set (options (dropdown f s))
      then dispatch (liClick f (dropdown f s) x) [] s else s)"
| "step (MouseDown target) s = dispatch (mouseDown target) [] s"
| "step ResetClick s = reset s"
| "step LoadMoreClick s =
     (if hasMore s then dispatch (\<lambda>t. t) (fetchMovies s (page s + 1) True) s else s)"
| "step (Settle i resp) s = settle i resp s"

fun run :: "'m event list \<Rightarrow> 'm app_state \<Rightarrow> 'm app_state" where
  "run [] s = s"
| "run (e # es) s = run es (step e s)"

subsection \<open>Observations\<close>

text \<open>
  The markup is computed from the state cells alone; \<open>view\<close> forgets the requests in
  flight. \<open>req_url\<close> is the endpoint a request was sent to, with the query parameters
  where the code composes the query from parameters. The address of a person request is
  the string it carries; it begins with \<^verbatim>\<open>person/?\<close>, so its endpoint is \<^verbatim>\<open>person/\<close>,
  and \<open>req_url\<close> gives that endpoint alone.
\<close>

definition view :: "'m app_state \<Rightarrow> 'm app_state" where
  "view s = s\<lparr>inflight := []\<rparr>"

fun req_url :: "request \<Rightarrow> url" where
  "req_url (DataReq u endpoint setter pg appending) = u"
| "req_url (PersonReq u setter pg appending setPageState setMoreState) = (''person/'', [])"
| "req_url (MovieReq u p appending) = u"

text \<open>The requests issued between an earlier state \<open>s\<close> and a later state \<open>s'\<close>.\<close>

definition issued :: "'m app_state \<Rightarrow> 'm app_state \<Rightarrow> request list" where
  "issued s s' = drop (length (inflight s)) (inflight s')"

text \<open>
  A term that means itself when pasted into a query string: ASCII letters and digits,
  and code units beyond ASCII outside the surrogate range, which \<^verbatim>\<open>fetch\<close> encodes by
  itself. The other ASCII characters include those with a meaning of their own in an
  address, such as \<^verbatim>\<open>&\<close>, \<^verbatim>\<open>#\<close>, \<^verbatim>\<open>+\<close>, \<^verbatim>\<open>%\<close> and white space.
\<close>

definition plain_unit :: "16 word \<Rightarrow> bool" where
  "plain_unit c = ((0x30 \<le> c \<and> c \<le> 0x39) \<or> (0x41 \<le> c \<and> c \<le> 0x5A) \<or> (0x61 \<le> c \<and> c \<le> 0x7A)
     \<or> (0x80 \<le> c \<and> c < 0xD800) \<or> 0xE000 \<le> c)"

definition plain :: "jstring \<Rightarrow> bool" where
  "plain v = list_all plain_unit v"

text \<open>The state cell a list setter writes.\<close>

fun cell :: "list_setter \<Rightarrow> 'm app_state \<Rightarrow> opt list" where
  "cell SetGenres s = genres s"
| "cell SetCountries s = countries s"
| "cell SetActors s = actors s"
| "cell SetDirectors s = directors s"

text \<open>
  The mounted application, with numbers standing for the movies, and a catalog row
  used in the examples.
\<close>

definition started :: "nat app_state" where
  "started = mount init"

definition drama :: api_row where
  "drama = \<lparr> row_id = 5, row_name = lit ''Drama'' \<rparr>"

definition anna :: api_person where
  "anna = \<lparr> person_id = 9, name_ru = lit ''Anna'' \<rparr>"

section \<open>Basic facts\<close>

declare digits.simps [simp del]

lemmas fetch_defs = fetchData_def fetchPersons_def fetchMovies_def
lemmas then_defs = fetchData_then_def fetchPersons_then_def fetchMovies_then_def
lemmas handler_defs = dispatch_def effects_def query_deps_def reset_def mouseDown_def
  closeOnOutsideClick_def buttonClick_def inputChange_def ulScroll_def liClick_def
  call_onSearch_def setOpen_def Let_def
lemmas string_defs = lit_def String_of_def digits.simps trim_def isWhiteSpace_def
lemmas eval_defs = mount_def init_def fetch_defs handler_defs settle_def then_defs params_def
  string_defs step.simps issued_def view_def started_def drama_def anna_def mapFn_def mapPerson_def
  plain_def plain_unit_def

subsection \<open>Effects\<close>

lemma effects_same: "effects s s = []"
  by (simp add: effects_def)

lemma dispatch_requests: "dispatch (\<lambda>t. t) reqs s = s\<lparr>inflight := inflight s @ reqs\<rparr>"
  by (simp add: dispatch_def effects_same)

lemma params_inflight [simp]: "params (s\<lparr>inflight := r\<rparr>) p = params s p"
  by (simp add: params_def)

lemma query_deps_inflight [simp]: "query_deps (s\<lparr>inflight := r\<rparr>) = query_deps s"
  by (simp add: query_deps_def)

subsection \<open>Completions\<close>

lemma settle_movie:
  "i < length (inflight s) \<Longrightarrow> inflight s ! i = MovieReq u p ap \<Longrightarrow>
   settle i (Films rs nx) s =
     s\<lparr>inflight := take i (inflight s) @ drop (Suc i) (inflight s),
       movies := (if ap then movies s @ rs else rs), hasMore := truthy_str nx, page := p\<rparr>"
  by (simp add: settle_def fetchMovies_then_def)

lemma cell_set_list: "cell setter (set_list setter f s) = f (cell setter s)"
  by (cases setter) simp_all

lemma cell_set_page: "cell setter (set_page sp n s) = cell setter s"
  by (cases setter; cases sp) simp_all

lemma cell_set_more: "cell setter (set_more sm b s) = cell setter s"
  by (cases setter; cases sm) simp_all

lemma cell_inflight: "cell setter (s\<lparr>inflight := r\<rparr>) = cell setter s"
  by (cases setter) simp_all

lemma settle_person:
  "i < length (inflight s) \<Longrightarrow> inflight s ! i = PersonReq u setter pg ap sp sm \<Longrightarrow>
   cell setter (settle i (People ps nx) s) =
     (if ap then cell setter s @ map mapPerson ps else map mapPerson ps)"
  by (simp add: settle_def fetchPersons_then_def cell_set_list cell_set_page cell_set_more cell_inflight)

lemma settle_data:
  "i < length (inflight s) \<Longrightarrow> inflight s ! i = DataReq u ep setter pg ap \<Longrightarrow>
   cell setter (settle i (Rows rows nx) s) =
     (if ap then cell setter s @ map mapFn rows else map mapFn rows)"
  by (cases setter) (simp_all add: settle_def fetchData_then_def Let_def)

lemma settle_query_deps: "query_deps (settle i resp s) = query_deps s"
proof (cases "i < length (inflight s)")
  case False
  then show ?thesis by (simp add: settle_def)
next
  case True
  show ?thesis
  proof (cases "inflight s ! i")
    case (DataReq u ep setter pg ap)
    with True show ?thesis
      by (cases resp; cases setter) (simp_all add: settle_def query_deps_def fetchData_then_def Let_def)
  next
    case (PersonReq u setter pg ap sp sm)
    with True show ?thesis
      by (cases resp; cases setter; cases sp; cases sm)
         (simp_all add: settle_def query_deps_def fetchPersons_then_def)
  next
    case (MovieReq u p ap)
    with True show ?thesis
      by (cases resp) (simp_all add: settle_def query_deps_def fetchMovies_then_def)
  qed
qed

subsection \<open>One lemma for each event\<close>

lemma mouseDown_eq:
  "mouseDown target s =
     s\<lparr>opened := opened (mouseDown target s),
       actorSearch := (if target = Some Actor then actorSearch s else []),
       directorSearch := (if target = Some Director then directorSearch s else [])\<rparr>"
proof (cases target)
  case None
  then show ?thesis
    by (simp add: mouseDown_def closeOnOutsideClick_def call_onSearch_def setOpen_def)
next
  case (Some f)
  then show ?thesis
    by (cases f) (simp_all add: mouseDown_def closeOnOutsideClick_def call_onSearch_def setOpen_def)
qed

lemma mouseDown_closes: "target \<noteq> Some f \<Longrightarrow> f \<notin> opened (mouseDown target s)"
  by (cases f; cases target)
     (auto simp add: mouseDown_def closeOnOutsideClick_def call_onSearch_def setOpen_def)

lemma query_deps_mouseDown: "query_deps (mouseDown target s) = query_deps s"
  by (subst mouseDown_eq) (simp add: query_deps_def)

lemma step_MouseDown: "step (MouseDown target) s = mouseDown target s"
proof -
  have "effects s (mouseDown target s) = []"
    by (subst mouseDown_eq) (simp add: effects_def query_deps_def fetchPersons_def)
  moreover have "inflight (mouseDown target s) = inflight s"
    by (subst mouseDown_eq) simp
  ultimately show ?thesis
    by (simp add: dispatch_def Let_def)
qed

lemma step_TitleInput:
  "step (TitleInput v) s =
     s\<lparr>search := v,
       inflight := inflight s @
         (if v \<noteq> search s then [MovieReq (''movie/'', params (s\<lparr>search := v\<rparr>) 1) 1 False] else [])\<rparr>"
  by (simp add: dispatch_def Let_def effects_def query_deps_def fetchMovies_def)

lemma step_Toggle:
  "step (Toggle f) s = s\<lparr>opened := (if f \<in> opened s then opened s - {f} else insert f (opened s))\<rparr>"
  by (simp add: dispatch_def Let_def effects_def query_deps_def buttonClick_def setOpen_def)

lemma step_LoadMoreClick:
  "step LoadMoreClick s =
     (if hasMore s
      then s\<lparr>inflight := inflight s @ [MovieReq (''movie/'', params s (page s + 1)) (page s + 1) True]\<rparr>
      else s)"
  by (simp add: dispatch_requests fetchMovies_def)

lemma step_Scroll:
  "step (Scroll f a b c) s =
     (if f \<in> opened s then s\<lparr>inflight := inflight s @ ulScroll (dropdown f s) a b c\<rparr> else s)"
  by (simp add: dispatch_requests)

lemma reset_eq:
  "reset s =
     s\<lparr>search := [], selectedGenre := None, selectedCountry := None, selectedYear := None,
       selectedActor := None, selectedDirector := None, actorSearch := [], directorSearch := [],
       inflight := inflight s @ MovieReq (''movie/'', params s 1) 1 False #
         (if query_deps s \<noteq> ([], None, None, None, None, None)
          then [MovieReq (''movie/'', [(''page'', String_of 1)]) 1 False] else [])\<rparr>"
  by (simp add: reset_def dispatch_def Let_def effects_def fetchPersons_def fetchMovies_def
      query_deps_def params_def trim_def)

lemma step_SearchInput:
  "step (SearchInput f v) s =
     (if f = Actor \<and> Actor \<in> opened s
      then s\<lparr>actorSearch := v, inflight := inflight s @
             (if v \<noteq> actorSearch s
              then fetchPersons ''actor'' v 1 False SetActors SetActorPage SetHasMoreActors else [])\<rparr>
      else if f = Director \<and> Director \<in> opened s
      then s\<lparr>directorSearch := v, inflight := inflight s @
             (if v \<noteq> directorSearch s
              then fetchPersons ''director'' v 1 False SetDirectors SetDirectorPage SetHasMoreDirectors
              else [])\<rparr>
      else s)"
  by (cases f) (simp_all add: dispatch_def Let_def effects_def query_deps_def inputChange_def call_onSearch_def)

lemma liClick_inflight [simp]: "inflight (liClick f (dropdown f s) x t) = inflight t"
  by (cases f) (simp_all add: liClick_def call_onSearch_def setOpen_def)

lemma liClick_effects:
  "effects s (liClick f (dropdown f s) x s) =
     (if query_deps (liClick f (dropdown f s) x s) \<noteq> query_deps s
      then [MovieReq (''movie/'', params (liClick f (dropdown f s) x s) 1) 1 False] else [])"
  by (cases f) (simp_all add: effects_def liClick_def call_onSearch_def setOpen_def fetchPersons_def
      fetchMovies_def query_deps_def)

lemma step_OptionClick:
  "step (OptionClick f x) s =
     (if f \<in> opened s \<and> x \<in> set (options (dropdown f s))
      then (liClick f (dropdown f s) x s)\<lparr>inflight := inflight s @
             (if query_deps (liClick f (dropdown f s) x s) \<noteq> query_deps s
              then [MovieReq (''movie/'', params (liClick f (dropdown f s) x s) 1) 1 False] else [])\<rparr>
      else s)"
  by (simp add: dispatch_def Let_def liClick_effects)

lemma liClick_page_movies:
  "page (liClick f (dropdown f s) x s) = page s \<and> movies (liClick f (dropdown f s) x s) = movies s"
  by (cases f) (simp_all add: liClick_def call_onSearch_def setOpen_def)

declare step.simps [simp del]

section \<open>Overlapping fetches of one source (C1)\<close>

text \<open>
  C1 says that a response of a superseded request is discarded. The component keeps
  no request token or generation counter, and no callback compares anything at
  completion time. With the title search changed from \<open>a\<close> to \<open>ab\<close> while both
  fetches are in flight, the answer for \<open>ab\<close> is applied first, and the answer for
  \<open>a\<close>, arriving afterwards, replaces the movies although the search is still \<open>ab\<close>.
\<close>

theorem stale_response_counterexample:
  "search (run [TitleInput (lit ''a''), TitleInput (lit ''ab''), Settle 4 (Films [2] None)] started) = lit ''ab''
   \<and> movies (run [TitleInput (lit ''a''), TitleInput (lit ''ab''), Settle 4 (Films [2] None)] started) = [2]
   \<and> req_url (inflight (run [TitleInput (lit ''a''), TitleInput (lit ''ab''), Settle 4 (Films [2] None)] started) ! 3)
       = (''movie/'', [(''search'', lit ''a''), (''page'', String_of 1)])
   \<and> search (run [TitleInput (lit ''a''), TitleInput (lit ''ab''), Settle 4 (Films [2] None),
                   Settle 3 (Films [1] None)] started) = lit ''ab''
   \<and> movies (run [TitleInput (lit ''a''), TitleInput (lit ''ab''), Settle 4 (Films [2] None),
                   Settle 3 (Films [1] None)] started) = [1]"
  by (simp add: eval_defs)

text \<open>
  C1, amended: for every source, a successful response is applied when it arrives,
  whatever has been requested since. The response of any request in flight, superseded
  or not, sets the list of its source from its own results alone (replacing it, or
  extending it for a load-more request), and for the movies also the page and the
  has-more flag. With overlapping fetches the state therefore reflects the response that
  arrived last; nothing is discarded.
\<close>

theorem response_applied_on_arrival:
  assumes "i < length (inflight s)"
  shows "(inflight s ! i = MovieReq u p ap \<longrightarrow>
            movies (settle i (Films rs nx) s) = (if ap then movies s @ rs else rs)
            \<and> page (settle i (Films rs nx) s) = p
            \<and> hasMore (settle i (Films rs nx) s) = truthy_str nx)
       \<and> (inflight s ! i = PersonReq w setter pg ap sp sm \<longrightarrow>
            cell setter (settle i (People ps nx) s) =
              (if ap then cell setter s @ map mapPerson ps else map mapPerson ps))
       \<and> (inflight s ! i = DataReq u ep setter pg ap \<longrightarrow>
            cell setter (settle i (Rows rows nx) s) =
              (if ap then cell setter s @ map mapFn rows else map mapFn rows))"
  using assms by (simp add: settle_movie settle_person settle_data)

text \<open>
  The three kinds of source at work: the movie fetch and the genre fetch of the mount,
  and an actor search for \<open>ann\<close>.
\<close>

theorem response_applied_on_arrival_witness:
  "inflight started ! 2 = MovieReq (''movie/'', [(''page'', String_of 1)]) 1 False
   \<and> movies (settle 2 (Films [7] None) started) = [7]
   \<and> page (settle 2 (Films [7] None) started) = 1
   \<and> hasMore (settle 2 (Films [7] None) started) = False
   \<and> inflight started ! 0 = DataReq (''genre'', [(''page'', String_of 1)]) ''genre'' SetGenres 1 False
   \<and> genres (settle 0 (Rows [drama] None) started) = [mapFn drama]
   \<and> inflight (run [Toggle Actor, SearchInput Actor (lit ''ann'')] started) ! 3 =
       PersonReq (lit ''person/?search=ann'') SetActors 1 False SetActorPage SetHasMoreActors
   \<and> actors (settle 3 (People [anna] None) (run [Toggle Actor, SearchInput Actor (lit ''ann'')] started))
       = [mapPerson anna]"
proof -
  have len: "2 < length (inflight started)" "0 < length (inflight started)"
    "3 < length (inflight (run [Toggle Actor, SearchInput Actor (lit ''ann'')] started))"
    by (simp_all add: eval_defs)
  have movie: "inflight started ! 2 = MovieReq (''movie/'', [(''page'', String_of 1)]) 1 False"
    by (simp add: eval_defs)
  have genre: "inflight started ! 0 = DataReq (''genre'', [(''page'', String_of 1)]) ''genre'' SetGenres 1 False"
    by (simp add: eval_defs)
  have person: "inflight (run [Toggle Actor, SearchInput Actor (lit ''ann'')] started) ! 3 =
      PersonReq (lit ''person/?search=ann'') SetActors 1 False SetActorPage SetHasMoreActors"
    by (simp add: eval_defs)
  from response_applied_on_arrival [OF len(1), where u = "(''movie/'', [(''page'', String_of 1)])"
      and p = 1 and ap = False and rs = "[7]" and nx = None] movie
  have a: "movies (settle 2 (Films [7] None) started) = [7]
      \<and> page (settle 2 (Films [7] None) started) = 1
      \<and> hasMore (settle 2 (Films [7] None) started) = False"
    by simp
  from response_applied_on_arrival [OF len(2), where u = "(''genre'', [(''page'', String_of 1)])"
      and ep = "''genre''" and setter = SetGenres and pg = 1 and ap = False
      and rows = "[drama]" and nx = None] genre
  have b: "genres (settle 0 (Rows [drama] None) started) = [mapFn drama]"
    by simp
  from response_applied_on_arrival [OF len(3), where w = "lit ''person/?search=ann''"
      and setter = SetActors and pg = 1 and ap = False and sp = SetActorPage and sm = SetHasMoreActors
      and ps = "[anna]" and nx = None] person
  have c: "actors (settle 3 (People [anna] None) (run [Toggle Actor, SearchInput Actor (lit ''ann'')] started))
      = [mapPerson anna]"
    by simp
  from a b c movie genre person show ?thesis
    by simp
qed

section \<open>A changed query (C3)\<close>

text \<open>
  C3 says that a change of a selection or of the title search resets the current page to
  1. The page cell is written by the callback of a successful movie fetch only: with
  two pages loaded, a change of the title search leaves the page at 2 while the fresh
  fetch is in flight.
\<close>

theorem page_not_reset_counterexample:
  "page (run [Settle 2 (Films [1] (Some (lit ''next''))), LoadMoreClick, Settle 2 (Films [2] None)]
          started) = 2
   \<and> search (run [Settle 2 (Films [1] (Some (lit ''next''))), LoadMoreClick, Settle 2 (Films [2] None),
          TitleInput (lit ''a'')] started) = lit ''a''
   \<and> page (run [Settle 2 (Films [1] (Some (lit ''next''))), LoadMoreClick, Settle 2 (Films [2] None),
          TitleInput (lit ''a'')] started) = 2"
  by (simp add: eval_defs)

text \<open>
  C3, amended: whenever an event changes a selection or the title search, a fresh
  page-1 fetch in replace mode, carrying the query of the new state, is the last request
  issued (a reset issues its own fetch before it); the event itself leaves the movies and
  the page as they are. When that fetch succeeds, in whatever state \<open>t\<close> it finds, its
  results replace the movie items and the page becomes 1.
\<close>

theorem query_change_refetches_page_one:
  assumes "query_deps (step e s) \<noteq> query_deps s"
  shows "inflight (step e s) =
           inflight s @ (if e = ResetClick then [MovieReq (''movie/'', params s 1) 1 False] else [])
             @ [MovieReq (''movie/'', params (step e s) 1) 1 False]
       \<and> page (step e s) = page s \<and> movies (step e s) = movies s
       \<and> (i < length (inflight t) \<and> inflight t ! i = MovieReq (''movie/'', params (step e s) 1) 1 False \<longrightarrow>
            movies (settle i (Films rs nx) t) = rs \<and> page (settle i (Films rs nx) t) = 1)"
proof -
  have fresh: "inflight (step e s) =
      inflight s @ (if e = ResetClick then [MovieReq (''movie/'', params s 1) 1 False] else [])
        @ [MovieReq (''movie/'', params (step e s) 1) 1 False]
      \<and> page (step e s) = page s \<and> movies (step e s) = movies s"
  proof (cases e)
    case (TitleInput v)
    with assms show ?thesis
      by (simp add: step_TitleInput query_deps_def)
  next
    case (Toggle f)
    with assms show ?thesis
      by (simp add: step_Toggle query_deps_def)
  next
    case (SearchInput f v)
    with assms show ?thesis
      by (simp add: step_SearchInput query_deps_def split: if_splits)
  next
    case (Scroll f a b c)
    with assms show ?thesis
      by (simp add: step_Scroll split: if_splits)
  next
    case (OptionClick f x)
    with assms show ?thesis
      by (simp add: step_OptionClick liClick_page_movies split: if_splits)
  next
    case (MouseDown target)
    with assms show ?thesis
      by (simp add: step_MouseDown query_deps_mouseDown)
  next
    case ResetClick
    with assms show ?thesis
      by (auto simp add: step.simps reset_eq query_deps_def params_def trim_def)
  next
    case LoadMoreClick
    with assms show ?thesis
      by (simp add: step_LoadMoreClick split: if_splits)
  next
    case (Settle j resp)
    with assms show ?thesis by (simp add: step.simps settle_query_deps)
  qed
  moreover have "movies (settle i (Films rs nx) t) = rs \<and> page (settle i (Films rs nx) t) = 1"
    if "i < length (inflight t)" "inflight t ! i = MovieReq (''movie/'', params (step e s) 1) 1 False"
    by (simp add: settle_movie [OF that])
  ultimately show ?thesis
    by blast
qed

theorem query_change_refetches_page_one_witness:
  "query_deps (step (TitleInput (lit ''a'')) started) \<noteq> query_deps started
   \<and> inflight (step (TitleInput (lit ''a'')) started) =
       inflight started @ [MovieReq (''movie/'', [(''search'', lit ''a''), (''page'', String_of 1)]) 1 False]
   \<and> page (step (TitleInput (lit ''a'')) started) = 1
   \<and> movies (settle 3 (Films [7] None) (step (TitleInput (lit ''a'')) started)) = [7]
   \<and> page (settle 3 (Films [7] None) (step (TitleInput (lit ''a'')) started)) = 1"
proof -
  have changed: "query_deps (step (TitleInput (lit ''a'')) started) \<noteq> query_deps started"
    by (simp add: eval_defs)
  have par: "params (step (TitleInput (lit ''a'')) started) 1
      = [(''search'', lit ''a''), (''page'', String_of 1)]"
    by (simp add: eval_defs)
  have len: "3 < length (inflight (step (TitleInput (lit ''a'')) started))"
    by (simp add: eval_defs)
  have at: "inflight (step (TitleInput (lit ''a'')) started) ! 3
      = MovieReq (''movie/'', [(''search'', lit ''a''), (''page'', String_of 1)]) 1 False"
    by (simp add: eval_defs)
  have p1: "page started = 1"
    by (simp add: eval_defs)
  from query_change_refetches_page_one [OF changed, where i = 3
      and t = "step (TitleInput (lit ''a'')) started" and rs = "[7]" and nx = None]
    changed par len at p1
  show ?thesis
    by simp
qed

section \<open>A failed fetch (C6)\<close>

text \<open>
  C6 says that a failed fetch is surfaced to the user as an error state. No call of
  \<^verbatim>\<open>fetch\<close> has a rejection handler and the component has no cell for an error: after
  the failure of the genre fetch, and of the movie fetch, everything the markup is
  computed from is what it was before.
\<close>

theorem failure_not_surfaced_counterexample:
  "view (step (Settle 0 NetworkFailure) started) = view started
   \<and> view (step (Settle 2 NetworkFailure) started) = view started"
  by (simp add: eval_defs)

text \<open>
  C6, amended: for every fetch, a failure leaves every state cell unchanged (no partial
  replacement of options, items, has-more flag or page); the request only leaves the
  in-flight list. Nothing records the failure, so nothing is shown to the user.
\<close>

theorem failure_changes_no_cell:
  "settle i NetworkFailure s = s\<lparr>inflight := take i (inflight s) @ drop (Suc i) (inflight s)\<rparr>
   \<and> view (step (Settle i NetworkFailure) s) = view s"
  by (simp add: settle_def view_def step.simps)

theorem failure_changes_no_cell_witness:
  "settle 1 NetworkFailure started = started\<lparr>inflight := [inflight started ! 0, inflight started ! 2]\<rparr>
   \<and> view (step (Settle 1 NetworkFailure) started) = view started"
proof -
  have "take 1 (inflight started) @ drop (Suc 1) (inflight started)
      = [inflight started ! 0, inflight started ! 2]"
    by (simp add: eval_defs)
  with failure_changes_no_cell [of 1 started] show ?thesis
    by simp
qed

section \<open>The frame of a reset (C9)\<close>

text \<open>
  C9: \<^verbatim>\<open>reset\<close> writes the title search, the five selections and the two facet search
  terms, and nothing else: the option lists of genre and country, their pages and
  has-more flags, like every other cell, are as before. The requests in flight before
  are still in flight, and every request that the reset issues goes to the movie
  endpoint, so no option list is fetched again.
\<close>

theorem reset_keeps_option_lists:
  "reset s = s\<lparr>search := [], selectedGenre := None, selectedCountry := None, selectedYear := None,
       selectedActor := None, selectedDirector := None, actorSearch := [], directorSearch := [],
       inflight := inflight (reset s)\<rparr>
   \<and> genres (reset s) = genres s \<and> countries (reset s) = countries s
   \<and> genrePage (reset s) = genrePage s \<and> countryPage (reset s) = countryPage s
   \<and> hasMoreGenres (reset s) = hasMoreGenres s \<and> hasMoreCountries (reset s) = hasMoreCountries s
   \<and> take (length (inflight s)) (inflight (reset s)) = inflight s
   \<and> list_all (\<lambda>r. fst (req_url r) = ''movie/'') (issued s (reset s))"
  by (simp add: reset_eq issued_def)

theorem reset_keeps_option_lists_witness:
  "genres (run [Settle 0 (Rows [drama] None), TitleInput (lit ''a'')] started) = [mapFn drama]
   \<and> genres (reset (run [Settle 0 (Rows [drama] None), TitleInput (lit ''a'')] started)) = [mapFn drama]
   \<and> search (reset (run [Settle 0 (Rows [drama] None), TitleInput (lit ''a'')] started)) = []"
proof -
  have "genres (run [Settle 0 (Rows [drama] None), TitleInput (lit ''a'')] started) = [mapFn drama]"
    by (simp add: eval_defs)
  moreover have "search (reset (run [Settle 0 (Rows [drama] None), TitleInput (lit ''a'')] started)) = []"
    by (simp add: reset_eq)
  ultimately show ?thesis
    using reset_keeps_option_lists [of "run [Settle 0 (Rows [drama] None), TitleInput (lit ''a'')] started"]
    by simp
qed

section \<open>The composed query (C2)\<close>

text \<open>
  C2 says that the query has the key \<open>search\<close> whenever the title search is non-empty,
  mapped to the current value. \<^verbatim>\<open>fetchMovies\<close> tests and sends \<^verbatim>\<open>search.trim()\<close>: a
  title search of one space is non-empty and yields no key, and a padded text is sent
  without its padding.
\<close>
theorem whitespace_search_counterexample:
  "search (step (TitleInput (lit '' '')) started) = lit '' ''
   \<and> search (step (TitleInput (lit '' '')) started) \<noteq> []
   \<and> map_of (params (step (TitleInput (lit '' '')) started) 1) ''search'' = None
   \<and> map_of (params (step (TitleInput (lit '' drama '')) started) 1) ''search'' = Some (lit ''drama'')"
  by (simp add: eval_defs)

text \<open>The parameter list, read as a map, key by key.\<close>
lemma params_search:
  "map_of (params t p) ''search'' = (if trim (search t) = [] then None else Some (trim (search t)))"
  by (simp add: params_def)

lemma params_genres:
  "selectedGenre t \<noteq> Some 0 \<Longrightarrow> map_of (params t p) ''genres'' = map_option String_of (selectedGenre t)"
  by (cases "selectedGenre t") (simp_all add: params_def)

lemma params_countries:
  "selectedCountry t \<noteq> Some 0 \<Longrightarrow> map_of (params t p) ''countries'' = map_option String_of (selectedCountry t)"
  by (cases "selectedCountry t") (simp_all add: params_def)

lemma params_release_year:
  "selectedYear t \<noteq> Some 0 \<Longrightarrow> map_of (params t p) ''release_year'' = map_option String_of (selectedYear t)"
  by (cases "selectedYear t") (simp_all add: params_def)

lemma params_cast:
  "selectedActor t \<noteq> Some 0 \<Longrightarrow> map_of (params t p) ''cast'' = map_option String_of (selectedActor t)"
  by (cases "selectedActor t") (simp_all add: params_def)

lemma params_directors:
  "selectedDirector t \<noteq> Some 0 \<Longrightarrow> map_of (params t p) ''directors'' = map_option String_of (selectedDirector t)"
  by (cases "selectedDirector t") (simp_all add: params_def)

lemma params_page: "map_of (params t p) ''page'' = Some (String_of p)"
  by (simp add: params_def)

lemma params_keys:
  "set (map fst (params t p)) \<subseteq>
     {''search'', ''genres'', ''countries'', ''release_year'', ''cast'', ''directors'', ''page''}"
  by (auto simp add: params_def)

lemma params_distinct: "distinct (map fst (params t p))"
  by (simp add: params_def)

text \<open>
  C2, amended: after every sequence of events (selections, title input, reset and all
  others), the query that \<^verbatim>\<open>fetchMovies\<close> composes in the state reached has the key
  \<open>search\<close> exactly when the title search is non-empty after trimming, mapped to the
  trimmed text, and each of \<open>genres\<close>, \<open>countries\<close>, \<open>release_year\<close>, \<open>cast\<close>,
  \<open>directors\<close> exactly when the corresponding selection is not null, mapped to the
  selected id; \<open>page\<close> is the only other key and no key occurs twice. So no key is
  left over from a cleared selection. The statement is for ids other than 0, which the
  truthiness test of the code does not tell from null.
\<close>
theorem query_has_exactly_the_current_filters:
  assumes "t = run es s"
    and "selectedGenre t \<noteq> Some 0" and "selectedCountry t \<noteq> Some 0" and "selectedYear t \<noteq> Some 0"
    and "selectedActor t \<noteq> Some 0" and "selectedDirector t \<noteq> Some 0"
  shows "map_of (params t p) ''search'' = (if trim (search t) = [] then None else Some (trim (search t)))
       \<and> map_of (params t p) ''genres'' = map_option String_of (selectedGenre t)
       \<and> map_of (params t p) ''countries'' = map_option String_of (selectedCountry t)
       \<and> map_of (params t p) ''release_year'' = map_option String_of (selectedYear t)
       \<and> map_of (params t p) ''cast'' = map_option String_of (selectedActor t)
       \<and> map_of (params t p) ''directors'' = map_option String_of (selectedDirector t)
       \<and> map_of (params t p) ''page'' = Some (String_of p)
       \<and> set (map fst (params t p)) \<subseteq>
           {''search'', ''genres'', ''countries'', ''release_year'', ''cast'', ''directors'', ''page''}
       \<and> distinct (map fst (params t p))"
  using assms(2-)
  by (simp only: params_search params_genres params_countries params_release_year params_cast
      params_directors params_page params_keys params_distinct simp_thms)

text \<open>Genre 5 selected and the title \<open>a\<close> typed with a leading space; then a reset.\<close>
theorem query_has_exactly_the_current_filters_witness:
  "selectedGenre (run [Settle 0 (Rows [drama] None), Toggle Genre, OptionClick Genre (mapFn drama),
        TitleInput (lit '' a'')] started) = Some 5
   \<and> map_of (params (run [Settle 0 (Rows [drama] None), Toggle Genre, OptionClick Genre (mapFn drama),
        TitleInput (lit '' a'')] started) 1) ''genres'' = Some (String_of 5)
   \<and> map_of (params (run [Settle 0 (Rows [drama] None), Toggle Genre, OptionClick Genre (mapFn drama),
        TitleInput (lit '' a'')] started) 1) ''search'' = Some (lit ''a'')
   \<and> map_of (params (run [Settle 0 (Rows [drama] None), Toggle Genre, OptionClick Genre (mapFn drama),
        TitleInput (lit '' a'')] started) 1) ''cast'' = None
   \<and> map_of (params (run [Settle 0 (Rows [drama] None), Toggle Genre, OptionClick Genre (mapFn drama),
        TitleInput (lit '' a''), ResetClick] started) 1) ''genres'' = None"
proof -
  have sel: "selectedGenre (run [Settle 0 (Rows [drama] None), Toggle Genre, OptionClick Genre (mapFn drama),
        TitleInput (lit '' a'')] started) = Some 5"
    "selectedCountry (run [Settle 0 (Rows [drama] None), Toggle Genre, OptionClick Genre (mapFn drama),
        TitleInput (lit '' a'')] started) = None"
    "selectedYear (run [Settle 0 (Rows [drama] None), Toggle Genre, OptionClick Genre (mapFn drama),
        TitleInput (lit '' a'')] started) = None"
    "selectedActor (run [Settle 0 (Rows [drama] None), Toggle Genre, OptionClick Genre (mapFn drama),
        TitleInput (lit '' a'')] started) = None"
    "selectedDirector (run [Settle 0 (Rows [drama] None), Toggle Genre, OptionClick Genre (mapFn drama),
        TitleInput (lit '' a'')] started) = None"
    "trim (search (run [Settle 0 (Rows [drama] None), Toggle Genre, OptionClick Genre (mapFn drama),
        TitleInput (lit '' a'')] started)) = lit ''a''"
    by (simp_all add: eval_defs)
  have cleared: "selectedGenre (run [Settle 0 (Rows [drama] None), Toggle Genre, OptionClick Genre (mapFn drama),
        TitleInput (lit '' a''), ResetClick] started) = None"
    "selectedCountry (run [Settle 0 (Rows [drama] None), Toggle Genre, OptionClick Genre (mapFn drama),
        TitleInput (lit '' a''), ResetClick] started) = None"
    "selectedYear (run [Settle 0 (Rows [drama] None), Toggle Genre, OptionClick Genre (mapFn drama),
        TitleInput (lit '' a''), ResetClick] started) = None"
    "selectedActor (run [Settle 0 (Rows [drama] None), Toggle Genre, OptionClick Genre (mapFn drama),
        TitleInput (lit '' a''), ResetClick] started) = None"
    "selectedDirector (run [Settle 0 (Rows [drama] None), Toggle Genre, OptionClick Genre (mapFn drama),
        TitleInput (lit '' a''), ResetClick] started) = None"
    by (simp_all add: eval_defs)
  have la: "lit ''a'' \<noteq> []"
    by (simp add: lit_def)
  from query_has_exactly_the_current_filters [OF refl, where p = 1 and s = started
      and es = "[Settle 0 (Rows [drama] None), Toggle Genre, OptionClick Genre (mapFn drama),
        TitleInput (lit '' a'')]"] sel la
  have a: "map_of (params (run [Settle 0 (Rows [drama] None), Toggle Genre, OptionClick Genre (mapFn drama),
        TitleInput (lit '' a'')] started) 1) ''genres'' = Some (String_of 5)
   \<and> map_of (params (run [Settle 0 (Rows [drama] None), Toggle Genre, OptionClick Genre (mapFn drama),
        TitleInput (lit '' a'')] started) 1) ''search'' = Some (lit ''a'')
   \<and> map_of (params (run [Settle 0 (Rows [drama] None), Toggle Genre, OptionClick Genre (mapFn drama),
        TitleInput (lit '' a'')] started) 1) ''cast'' = None"
    by simp
  from query_has_exactly_the_current_filters [OF refl, where p = 1 and s = started
      and es = "[Settle 0 (Rows [drama] None), Toggle Genre, OptionClick Genre (mapFn drama),
        TitleInput (lit '' a''), ResetClick]"] cleared
  have b: "map_of (params (run [Settle 0 (Rows [drama] None), Toggle Genre, OptionClick Genre (mapFn drama),
        TitleInput (lit '' a''), ResetClick] started) 1) ''genres'' = None"
    by simp
  from a b sel(1) show ?thesis
    by simp
qed

section \<open>The fetches of a reset (C4)\<close>

text \<open>
  C4 says that \<^verbatim>\<open>reset\<close> triggers exactly one page-1 fetch, without filter keys. With
  genre 5 selected, \<^verbatim>\<open>reset\<close> clears the selections, but its own call \<^verbatim>\<open>fetchMovies(1)\<close>
  runs in the closure of the render before the updates and asks for genre 5 again; the
  effect on the selections then issues the unfiltered fetch, a second request. If the
  answer of the first arrives last, the list shows the filtered movies with no filter
  selected.
\<close>
theorem reset_fetches_with_stale_filters:
  "selectedGenre (run [Settle 0 (Rows [drama] None), Toggle Genre, OptionClick Genre (mapFn drama)] started) = Some 5
   \<and> query_deps (step ResetClick
        (run [Settle 0 (Rows [drama] None), Toggle Genre, OptionClick Genre (mapFn drama)] started))
       = ([], None, None, None, None, None)
   \<and> issued (run [Settle 0 (Rows [drama] None), Toggle Genre, OptionClick Genre (mapFn drama)] started)
        (step ResetClick
          (run [Settle 0 (Rows [drama] None), Toggle Genre, OptionClick Genre (mapFn drama)] started))
       = [MovieReq (''movie/'', [(''genres'', String_of 5), (''page'', String_of 1)]) 1 False,
          MovieReq (''movie/'', [(''page'', String_of 1)]) 1 False]
   \<and> movies (run [Settle 0 (Rows [drama] None), Toggle Genre, OptionClick Genre (mapFn drama),
        ResetClick, Settle 4 (Films [10, 20] None), Settle 3 (Films [10] None)] started) = [10]"
  by (simp add: eval_defs)

section \<open>The search term of a lazy facet (C5)\<close>

text \<open>
  What holds of the search input of an open lazy dropdown: a change to a term of fewer
  than 3 code units issues no request and leaves the options and the has-more flag of
  the facet as they are; a change to a term of at least 3 code units, other than the one
  rendered, issues exactly one request, whose address is \<^verbatim>\<open>person/?search=\<close> followed
  by the term as typed, and when that request succeeds, in whatever state, its results
  replace the options.
\<close>

lemma search_threshold:
  assumes "f = Actor \<or> f = Director" and "f \<in> opened s"
  shows "(length v < 3 \<longrightarrow>
            inflight (step (SearchInput f v) s) = inflight s
            \<and> options (dropdown f (step (SearchInput f v) s)) = options (dropdown f s)
            \<and> hasMore_prop (dropdown f (step (SearchInput f v) s)) = hasMore_prop (dropdown f s))
       \<and> (3 \<le> length v \<and> v \<noteq> searchTerm (dropdown f s) \<longrightarrow>
            issued s (step (SearchInput f v) s) =
              [PersonReq (lit ''person/?search='' @ v) (if f = Actor then SetActors else SetDirectors) 1 False
                 (if f = Actor then SetActorPage else SetDirectorPage)
                 (if f = Actor then SetHasMoreActors else SetHasMoreDirectors)]
            \<and> (i < length (inflight t) \<and> inflight t ! i = hd (issued s (step (SearchInput f v) s)) \<longrightarrow>
                 options (dropdown f (settle i (People ps nx) t)) = map mapPerson ps))
       \<and> searchTerm (dropdown f (step (SearchInput f v) s)) = v"
proof -
  have actor: "actors (settle i (People ps nx) t) = map mapPerson ps"
    if "i < length (inflight t)" "inflight t ! i = PersonReq u SetActors 1 False sp sm" for u sp sm
    using settle_person [OF that] by simp
  have director: "directors (settle i (People ps nx) t) = map mapPerson ps"
    if "i < length (inflight t)" "inflight t ! i = PersonReq u SetDirectors 1 False sp sm" for u sp sm
    using settle_person [OF that] by simp
  from assms(1) show ?thesis
  proof
    assume "f = Actor"
    with assms(2) show ?thesis
      by (auto simp add: step_SearchInput fetchPersons_def issued_def actor)
  next
    assume "f = Director"
    with assms(2) show ?thesis
      by (auto simp add: step_SearchInput fetchPersons_def issued_def director)
  qed
qed

text \<open>
  C5 says that a term of at least 3 code units issues one page-1 request for that term.
  \<^verbatim>\<open>fetchPersons\<close> pastes the term into the address without encoding it, where
  \<^verbatim>\<open>fetchMovies\<close> passes the title search through \<^verbatim>\<open>URLSearchParams\<close>. Typed into
  the actor search of the mounted application, the term \<^verbatim>\<open>x&page=7\<close> issues the address
  \<^verbatim>\<open>person/?search=x&page=7\<close>, which asks for page 7 of the term \<^verbatim>\<open>x\<close>; the term
  \<^verbatim>\<open>ab#\<close>, of 3 code units, issues \<^verbatim>\<open>person/?search=ab#\<close>, which asks for the term
  \<^verbatim>\<open>ab\<close>, of 2. The callbacks of both requests still hold page 1 and replace the options.
\<close>

theorem search_term_pasted_unencoded:
  "Actor \<in> opened (step (Toggle Actor) started)
   \<and> length (lit ''x&page=7'') = 8
   \<and> issued (step (Toggle Actor) started)
        (step (SearchInput Actor (lit ''x&page=7'')) (step (Toggle Actor) started))
       = [PersonReq (lit ''person/?search=x&page=7'') SetActors 1 False SetActorPage SetHasMoreActors]
   \<and> length (lit ''ab#'') = 3
   \<and> issued (step (Toggle Actor) started)
        (step (SearchInput Actor (lit ''ab#'')) (step (Toggle Actor) started))
       = [PersonReq (lit ''person/?search=ab#'') SetActors 1 False SetActorPage SetHasMoreActors]
   \<and> issued (step (Toggle Actor) started)
        (step (SearchInput Actor (lit ''ann'')) (step (Toggle Actor) started))
       = [PersonReq (lit ''person/?search=ann'') SetActors 1 False SetActorPage SetHasMoreActors]
   \<and> issued (step (Toggle Actor) started)
        (step (SearchInput Actor (lit ''an'')) (step (Toggle Actor) started)) = []"
  by (simp add: eval_defs)

section \<open>Loading more twice (C7)\<close>

text \<open>Two load-more calls issued before either is answered, then both answers.\<close>

lemma more_movies_twice:
  assumes "hasMore s"
  shows "movies (run [LoadMoreClick, Settle (length (inflight s)) (Films r1 x1)] s) = movies s @ r1"
    and "movies (run [LoadMoreClick, LoadMoreClick, Settle (length (inflight s)) (Films r1 x1),
            Settle (length (inflight s)) (Films r2 x2)] s) = movies s @ r1 @ r2"
  using assms by (simp_all add: step_LoadMoreClick step.simps(9) settle_def fetchMovies_then_def nth_append)

lemma scroll_eager_twice:
  assumes "f = Genre \<or> f = Country" "f \<in> opened s" "hasMore_prop (dropdown f s)" "b - a \<le> c + 5"
  shows "options (dropdown f (run [Scroll f a b c, Scroll f a b c,
            Settle (length (inflight s)) (Rows q1 x1), Settle (length (inflight s)) (Rows q2 x2)] s))
         = options (dropdown f s) @ map mapFn q1 @ map mapFn q2"
  using assms
  by (auto simp add: step_Scroll step.simps(9) ulScroll_def fetchData_def settle_def fetchData_then_def
      nth_append Let_def)

lemma scroll_lazy_twice:
  assumes "f = Actor \<or> f = Director" "f \<in> opened s" "hasMore_prop (dropdown f s)" "b - a \<le> c + 5"
    "3 \<le> length (searchTerm (dropdown f s))"
  shows "options (dropdown f (run [Scroll f a b c, Scroll f a b c,
            Settle (length (inflight s)) (People q1 x1), Settle (length (inflight s)) (People q2 x2)] s))
         = options (dropdown f s) @ map mapPerson q1 @ map mapPerson q2"
  using assms
  by (auto simp add: step_Scroll step.simps(9) ulScroll_def fetchPersons_def settle_def
      fetchPersons_then_def nth_append Let_def)

text \<open>
  C7 says that two load-more calls resolving the same page leave the list that one call
  leaves. Nothing in the component tracks a pending load or compares ids: with page 1
  loaded, two clicks on the load-more button both ask for page 2, and both answers are
  appended.
\<close>
theorem load_more_twice_counterexample:
  "movies (run [Settle 2 (Films [1] (Some (lit ''next'')))] started) = [1]
   \<and> movies (run [Settle 2 (Films [1] (Some (lit ''next''))), LoadMoreClick,
        Settle 2 (Films [2] None)] started) = [1, 2]
   \<and> page (run [Settle 2 (Films [1] (Some (lit ''next''))), LoadMoreClick, LoadMoreClick,
        Settle 2 (Films [2] None), Settle 2 (Films [2] None)] started) = 2
   \<and> movies (run [Settle 2 (Films [1] (Some (lit ''next''))), LoadMoreClick, LoadMoreClick,
        Settle 2 (Films [2] None), Settle 2 (Films [2] None)] started) = [1, 2, 2]"
  by (simp add: eval_defs)

text \<open>
  C7, amended: for the result list and for every facet that can load more, each
  load-more response is appended as it is received. One load-more extends the list by
  its response; two load-more calls issued before either is answered ask for the same
  page, and the final list is the prior list followed by the first and then by the second
  response, so the items of that page occur twice. For a dropdown the call happens on a
  scroll to within 5 pixels of the bottom, and for a lazy facet with a term of at least
  3 code units.
\<close>
theorem load_more_appends_every_response:
  "(hasMore s \<longrightarrow>
      movies (run [LoadMoreClick, Settle (length (inflight s)) (Films r1 x1)] s) = movies s @ r1
      \<and> movies (run [LoadMoreClick, LoadMoreClick, Settle (length (inflight s)) (Films r1 x1),
           Settle (length (inflight s)) (Films r2 x2)] s) = movies s @ r1 @ r2)
   \<and> ((f = Genre \<or> f = Country) \<and> f \<in> opened s \<and> hasMore_prop (dropdown f s) \<and> b - a \<le> c + 5 \<longrightarrow>
      options (dropdown f (run [Scroll f a b c, Scroll f a b c,
           Settle (length (inflight s)) (Rows q1 x1), Settle (length (inflight s)) (Rows q2 x2)] s))
        = options (dropdown f s) @ map mapFn q1 @ map mapFn q2)
   \<and> ((f = Actor \<or> f = Director) \<and> f \<in> opened s \<and> hasMore_prop (dropdown f s) \<and> b - a \<le> c + 5
        \<and> 3 \<le> length (searchTerm (dropdown f s)) \<longrightarrow>
      options (dropdown f (run [Scroll f a b c, Scroll f a b c,
           Settle (length (inflight s)) (People k1 x1), Settle (length (inflight s)) (People k2 x2)] s))
        = options (dropdown f s) @ map mapPerson k1 @ map mapPerson k2)"
proof (intro conjI impI)
  assume "hasMore s"
  then show "movies (run [LoadMoreClick, Settle (length (inflight s)) (Films r1 x1)] s) = movies s @ r1"
    by (rule more_movies_twice)
next
  assume "hasMore s"
  then show "movies (run [LoadMoreClick, LoadMoreClick, Settle (length (inflight s)) (Films r1 x1),
      Settle (length (inflight s)) (Films r2 x2)] s) = movies s @ r1 @ r2"
    by (rule more_movies_twice)
next
  assume "(f = Genre \<or> f = Country) \<and> f \<in> opened s \<and> hasMore_prop (dropdown f s) \<and> b - a \<le> c + 5"
  then show "options (dropdown f (run [Scroll f a b c, Scroll f a b c,
      Settle (length (inflight s)) (Rows q1 x1), Settle (length (inflight s)) (Rows q2 x2)] s))
      = options (dropdown f s) @ map mapFn q1 @ map mapFn q2"
    by (intro scroll_eager_twice) simp_all
next
  assume "(f = Actor \<or> f = Director) \<and> f \<in> opened s \<and> hasMore_prop (dropdown f s) \<and> b - a \<le> c + 5
      \<and> 3 \<le> length (searchTerm (dropdown f s))"
  then show "options (dropdown f (run [Scroll f a b c, Scroll f a b c,
      Settle (length (inflight s)) (People k1 x1), Settle (length (inflight s)) (People k2 x2)] s))
      = options (dropdown f s) @ map mapPerson k1 @ map mapPerson k2"
    by (intro scroll_lazy_twice) simp_all
qed

theorem load_more_appends_every_response_witness:
  "hasMore (run [Settle 2 (Films [1] (Some (lit ''next'')))] started)
   \<and> movies (run [LoadMoreClick, LoadMoreClick, Settle 2 (Films [2] None), Settle 2 (Films [2] None)]
        (run [Settle 2 (Films [1] (Some (lit ''next'')))] started)) = [1, 2, 2]
   \<and> Genre \<in> opened (run [Settle 0 (Rows [drama] (Some (lit ''next''))), Toggle Genre] started)
   \<and> hasMore_prop (dropdown Genre (run [Settle 0 (Rows [drama] (Some (lit ''next''))), Toggle Genre] started))
   \<and> genres (run [Scroll Genre 0 100 100, Scroll Genre 0 100 100,
          Settle 2 (Rows [drama] None), Settle 2 (Rows [drama] None)]
        (run [Settle 0 (Rows [drama] (Some (lit ''next''))), Toggle Genre] started))
      = [mapFn drama, mapFn drama, mapFn drama]"
proof -
  have more: "hasMore (run [Settle 2 (Films [1] (Some (lit ''next'')))] started)"
    and len: "length (inflight (run [Settle 2 (Films [1] (Some (lit ''next'')))] started)) = 2"
    and was: "movies (run [Settle 2 (Films [1] (Some (lit ''next'')))] started) = [1]"
    by (simp_all add: eval_defs)
  have gopen: "Genre \<in> opened (run [Settle 0 (Rows [drama] (Some (lit ''next''))), Toggle Genre] started)"
    and gmore: "hasMore_prop (dropdown Genre (run [Settle 0 (Rows [drama] (Some (lit ''next''))), Toggle Genre] started))"
    and glen: "length (inflight (run [Settle 0 (Rows [drama] (Some (lit ''next''))), Toggle Genre] started)) = 2"
    and gwas: "genres (run [Settle 0 (Rows [drama] (Some (lit ''next''))), Toggle Genre] started) = [mapFn drama]"
    by (simp_all add: eval_defs)
  from load_more_appends_every_response [where s = "run [Settle 2 (Films [1] (Some (lit ''next'')))] started"
      and ?r1.0 = "[2]" and ?r2.0 = "[2]" and ?x1.0 = None and ?x2.0 = None] more len was
  have a: "movies (run [LoadMoreClick, LoadMoreClick, Settle 2 (Films [2] None), Settle 2 (Films [2] None)]
        (run [Settle 2 (Films [1] (Some (lit ''next'')))] started)) = [1, 2, 2]"
    by simp
  from load_more_appends_every_response [where f = Genre and a = 0 and b = 100 and c = 100
      and s = "run [Settle 0 (Rows [drama] (Some (lit ''next''))), Toggle Genre] started"
      and ?q1.0 = "[drama]" and ?q2.0 = "[drama]" and ?x1.0 = None and ?x2.0 = None] gopen gmore glen gwas
  have b: "genres (run [Scroll Genre 0 100 100, Scroll Genre 0 100 100,
          Settle 2 (Rows [drama] None), Settle 2 (Rows [drama] None)]
        (run [Settle 0 (Rows [drama] (Some (lit ''next''))), Toggle Genre] started))
      = [mapFn drama, mapFn drama, mapFn drama]"
    by simp
  from a b more gopen gmore show ?thesis
    by simp
qed

section \<open>The guard of load-more (C8)\<close>






section \<open>Closing a dropdown (C10)\<close>

lemma searchTerm_mouseDown: "target \<noteq> Some f \<Longrightarrow> searchTerm (dropdown f (mouseDown target s)) = []"
  by (subst mouseDown_eq) (cases f; simp)

lemma options_mouseDown: "options (dropdown f (mouseDown target s)) = options (dropdown f s)"
  by (subst mouseDown_eq) (cases f; simp)

lemma inflight_mouseDown: "inflight (mouseDown target s) = inflight s"
  by (subst mouseDown_eq) simp

lemma liClick_lazy:
  assumes "f = Actor \<or> f = Director"
  shows "searchTerm (dropdown f ((liClick f (dropdown f s) x s)\<lparr>inflight := r\<rparr>)) = []"
    and "options (dropdown f ((liClick f (dropdown f s) x s)\<lparr>inflight := r\<rparr>)) = options (dropdown f s)"
    and "query_deps (liClick f (dropdown f s) x s) \<noteq> query_deps s \<longleftrightarrow> selected (dropdown f s) \<noteq> Some (opt_id x)"
  using assms by (auto simp add: liClick_def call_onSearch_def setOpen_def query_deps_def)

text \<open>
  C10: a click on an option of an open lazy-search dropdown empties that facet's search
  term and leaves its options as they are; the empty term makes \<^verbatim>\<open>fetchPersons\<close>
  return at once, so no request goes to the facet's endpoint: the only request the click
  can issue is the page-1 movie fetch for the selection it changed. A mouse press
  outside a dropdown closes it and leaves its search term empty; it issues no request
  at all and leaves the options of the dropdown as they are.
\<close>

theorem closing_resets_term_without_fetch:
  "((f = Actor \<or> f = Director) \<and> f \<in> opened s \<and> x \<in> set (options (dropdown f s)) \<longrightarrow>
      searchTerm (dropdown f (step (OptionClick f x) s)) = []
      \<and> options (dropdown f (step (OptionClick f x) s)) = options (dropdown f s)
      \<and> issued s (step (OptionClick f x) s) =
           (if selected (dropdown f s) \<noteq> Some (opt_id x)
            then [MovieReq (''movie/'', params (step (OptionClick f x) s) 1) 1 False] else [])
      \<and> list_all (\<lambda>r. fst (req_url r) = ''movie/'') (issued s (step (OptionClick f x) s)))
   \<and> (target \<noteq> Some f \<longrightarrow>
      f \<notin> opened (step (MouseDown target) s)
      \<and> searchTerm (dropdown f (step (MouseDown target) s)) = []
      \<and> inflight (step (MouseDown target) s) = inflight s
      \<and> options (dropdown f (step (MouseDown target) s)) = options (dropdown f s))"
proof (intro conjI impI)
  assume h: "(f = Actor \<or> f = Director) \<and> f \<in> opened s \<and> x \<in> set (options (dropdown f s))"
  then have lazy: "f = Actor \<or> f = Director"
    by simp
  from h show "searchTerm (dropdown f (step (OptionClick f x) s)) = []"
    by (simp add: step_OptionClick liClick_lazy(1) [OF lazy])
  from h show "options (dropdown f (step (OptionClick f x) s)) = options (dropdown f s)"
    by (simp add: step_OptionClick liClick_lazy(2) [OF lazy])
  from h show "issued s (step (OptionClick f x) s) =
      (if selected (dropdown f s) \<noteq> Some (opt_id x)
       then [MovieReq (''movie/'', params (step (OptionClick f x) s) 1) 1 False] else [])"
    by (simp add: step_OptionClick liClick_lazy(3) [OF lazy] issued_def)
  from h show "list_all (\<lambda>r. fst (req_url r) = ''movie/'') (issued s (step (OptionClick f x) s))"
    by (simp add: step_OptionClick issued_def)
next
  assume "target \<noteq> Some f"
  then show "f \<notin> opened (step (MouseDown target) s)"
    by (simp add: step_MouseDown mouseDown_closes)
next
  assume "target \<noteq> Some f"
  then show "searchTerm (dropdown f (step (MouseDown target) s)) = []"
    by (simp add: step_MouseDown searchTerm_mouseDown)
next
  show "inflight (step (MouseDown target) s) = inflight s"
    by (simp add: step_MouseDown inflight_mouseDown)
  show "options (dropdown f (step (MouseDown target) s)) = options (dropdown f s)"
    by (simp add: step_MouseDown options_mouseDown)
qed

theorem closing_resets_term_without_fetch_witness:
  "actorSearch (run [Toggle Actor, SearchInput Actor (lit ''ann''), Settle 3 (People [anna] None)] started)
       = lit ''ann''
   \<and> actorSearch (step (OptionClick Actor (mapPerson anna))
        (run [Toggle Actor, SearchInput Actor (lit ''ann''), Settle 3 (People [anna] None)] started)) = []
   \<and> actors (step (OptionClick Actor (mapPerson anna))
        (run [Toggle Actor, SearchInput Actor (lit ''ann''), Settle 3 (People [anna] None)] started))
       = [mapPerson anna]
   \<and> issued (run [Toggle Actor, SearchInput Actor (lit ''ann''), Settle 3 (People [anna] None)] started)
        (step (OptionClick Actor (mapPerson anna))
          (run [Toggle Actor, SearchInput Actor (lit ''ann''), Settle 3 (People [anna] None)] started))
       = [MovieReq (''movie/'', [(''cast'', String_of 9), (''page'', String_of 1)]) 1 False]
   \<and> actorSearch (step (MouseDown None)
        (run [Toggle Actor, SearchInput Actor (lit ''ann''), Settle 3 (People [anna] None)] started)) = []
   \<and> inflight (step (MouseDown None)
        (run [Toggle Actor, SearchInput Actor (lit ''ann''), Settle 3 (People [anna] None)] started))
       = inflight (run [Toggle Actor, SearchInput Actor (lit ''ann''), Settle 3 (People [anna] None)] started)
   \<and> actors (step (MouseDown None)
        (run [Toggle Actor, SearchInput Actor (lit ''ann''), Settle 3 (People [anna] None)] started))
       = [mapPerson anna]"
proof -
  have before: "actorSearch (run [Toggle Actor, SearchInput Actor (lit ''ann''), Settle 3 (People [anna] None)]
        started) = lit ''ann''"
    "actors (run [Toggle Actor, SearchInput Actor (lit ''ann''), Settle 3 (People [anna] None)] started)
      = [mapPerson anna]"
    "Actor \<in> opened (run [Toggle Actor, SearchInput Actor (lit ''ann''), Settle 3 (People [anna] None)] started)"
    "selectedActor (run [Toggle Actor, SearchInput Actor (lit ''ann''), Settle 3 (People [anna] None)] started)
      = None"
    by (simp_all add: eval_defs)
  have par: "params (step (OptionClick Actor (mapPerson anna))
        (run [Toggle Actor, SearchInput Actor (lit ''ann''), Settle 3 (People [anna] None)] started)) 1
      = [(''cast'', String_of 9), (''page'', String_of 1)]"
    by (simp add: eval_defs)
  from closing_resets_term_without_fetch [where f = Actor and x = "mapPerson anna" and target = None
      and s = "run [Toggle Actor, SearchInput Actor (lit ''ann''), Settle 3 (People [anna] None)] started"]
    before par
  show ?thesis
    by simp
qed

end
